theory Spec2Isabelle
  imports Main "HOL-Library.Word"
begin

section \<open>Data model of rbtree.go\<close>

text \<open>
  The Go nodes are heap objects that point at each other (\<open>left\<close>, \<open>right\<close>,
  \<open>parent\<close>), so the model has an explicit store: a node pointer is an address or
  \<open>None\<close> (Go's \<open>nil\<close>), and the store maps every address to a node. Go is
  garbage collected and memory safe, so a non-nil pointer always names a node; the only
  pointer failure is a nil dereference, which panics.
\<close>

type_synonym addr = nat

datatype color = red | black

datatype direction = dir_root | dir_left | dir_right

record ('k, 'v) RBTreeNode =
  col :: color
  left :: "addr option"
  right :: "addr option"
  parent :: "addr option"
  key :: 'k
  val :: 'v
  flag :: bool
  hpflag :: "32 word"
  marker :: bool

text \<open>
  The tree has the fields \<open>root\<close> and \<open>count\<close> (the mutex \<open>mu\<close> is never
  used by the code). The record also carries the store \<open>nodes\<close>, the next free address
  \<open>nxt\<close>, and the two slices \<open>l\<close> and \<open>m\<close> that \<open>Insert\<close> and
  \<open>Delete\<close> allocate and hand down by pointer (\<open>larea\<close>, \<open>markers\<close>).
  \<open>count\<close> is a Go \<open>int\<close>; it is modelled as an unbounded integer (it moves by one
  per operation).
\<close>

record ('k, 'v) RBTree =
  root :: "addr option"
  count :: int
  nodes :: "addr \<Rightarrow> ('k, 'v) RBTreeNode"
  nxt :: addr
  larea :: "addr list"
  markers :: "addr list"

datatype error = NilDeref | OutOfFuel | Spin

text \<open>
  \<open>NilDeref\<close> is Go's nil-pointer panic. \<open>OutOfFuel\<close> is the model's bound on
  recursion depth and on the number of attempts of a retry loop. \<open>Spin\<close> is a spin loop
  (\<open>for !x.CompareAndSwap(false, true) { time.Sleep(...) }\<close>) entered with the word already
  set: with one thread nobody resets the word, so the loop never ends.
\<close>

type_synonym ('k, 'v, 'a) prog = "('k, 'v) RBTree \<Rightarrow> error + ('a \<times> ('k, 'v) RBTree)"

definition then_do :: "error + 'a \<Rightarrow> ('a \<Rightarrow> error + 'b) \<Rightarrow> error + 'b" where
  "then_do x f = (case x of Inl e \<Rightarrow> Inl e | Inr v \<Rightarrow> f v)"

definition node :: "('k, 'v) RBTree \<Rightarrow> addr \<Rightarrow> ('k, 'v) RBTreeNode" where
  "node s a = nodes s a"

definition upd :: "addr \<Rightarrow> (('k, 'v) RBTreeNode \<Rightarrow> ('k, 'v) RBTreeNode) \<Rightarrow> ('k, 'v) RBTree \<Rightarrow> ('k, 'v) RBTree" where
  "upd a f s = s\<lparr>nodes := (nodes s)(a := f (nodes s a))\<rparr>"

text \<open>A field write through a pointer that may be nil.\<close>

definition store :: "addr option \<Rightarrow> (('k, 'v) RBTreeNode \<Rightarrow> ('k, 'v) RBTreeNode) \<Rightarrow> ('k, 'v) RBTree \<Rightarrow> error + ('k, 'v) RBTree" where
  "store p f s = (case p of None \<Rightarrow> Inl NilDeref | Some a \<Rightarrow> Inr (upd a f s))"

section \<open>Navigation\<close>

definition dir :: "('k, 'v) RBTree \<Rightarrow> addr \<Rightarrow> direction" where
  "dir s n =
     (case parent (node s n) of
        None \<Rightarrow> dir_root
      | Some p \<Rightarrow>
          if left (node s p) \<noteq> None \<and> left (node s p) = Some n then dir_left else dir_right)"

definition uncle :: "('k, 'v) RBTree \<Rightarrow> addr \<Rightarrow> addr option" where
  "uncle s n =
     (case parent (node s n) of
        None \<Rightarrow> None
      | Some p \<Rightarrow>
          (case parent (node s p) of
             None \<Rightarrow> None
           | Some g \<Rightarrow> if dir s p = dir_left then right (node s g) else left (node s g)))"

definition sibling :: "('k, 'v) RBTree \<Rightarrow> addr \<Rightarrow> addr option" where
  "sibling s n =
     (case parent (node s n) of
        None \<Rightarrow> None
      | Some p \<Rightarrow> if dir s n = dir_left then right (node s p) else left (node s p))"

definition isRed :: "('k, 'v) RBTree \<Rightarrow> addr option \<Rightarrow> bool" where
  "isRed s p = (case p of None \<Rightarrow> False | Some a \<Rightarrow> col (node s a) = red)"

definition isBlack :: "('k, 'v) RBTree \<Rightarrow> addr option \<Rightarrow> bool" where
  "isBlack s p = (case p of None \<Rightarrow> True | Some a \<Rightarrow> col (node s a) = black)"

section \<open>The writer flag\<close>

text \<open>
  \<open>lock\<close>: nil fails; the compare-and-swap of \<open>flag\<close> from false to true fails when
  the flag is set; with the flag taken, a positive reader count (a signed 32-bit load)
  gives the flag back and fails.
\<close>

definition lock :: "addr option \<Rightarrow> ('k, 'v) RBTree \<Rightarrow> bool \<times> ('k, 'v) RBTree" where
  "lock p s =
     (case p of
        None \<Rightarrow> (False, s)
      | Some n \<Rightarrow>
          if flag (node s n) then (False, s)
          else
            (let s1 = upd n (\<lambda>x. x\<lparr>flag := True\<rparr>) s
             in if 0 <s hpflag (node s1 n)
                then (False, upd n (\<lambda>x. x\<lparr>flag := False\<rparr>) s1)
                else (True, s1)))"

definition islock :: "('k, 'v) RBTree \<Rightarrow> addr \<Rightarrow> bool" where
  "islock s n = flag (node s n)"

definition isMark :: "('k, 'v) RBTree \<Rightarrow> addr \<Rightarrow> bool" where
  "isMark s n = marker (node s n)"

text \<open>
  \<open>unlock\<close> is \<open>flag.CompareAndSwap(true, false)\<close> on a non-nil node: whatever the
  flag was, it is false afterwards. No caller uses the boolean it returns.
\<close>

definition unlock :: "addr option \<Rightarrow> ('k, 'v) RBTree \<Rightarrow> ('k, 'v) RBTree" where
  "unlock p s = (case p of None \<Rightarrow> s | Some n \<Rightarrow> upd n (\<lambda>x. x\<lparr>flag := False\<rparr>) s)"

definition unlockArea :: "('k, 'v) RBTree \<Rightarrow> ('k, 'v) RBTree" where
  "unlockArea s = (fold (\<lambda>a. unlock (Some a)) (larea s) s)\<lparr>larea := []\<rparr>"

section \<open>Readers\<close>

text \<open>
  \<open>get\<close> returns a pointer to the value field and a success flag; the model returns
  the value the pointer shows when \<open>get\<close> returns. The deferred
  \<open>hpflag.Add(-1)\<close> runs after the recursive call has returned.
\<close>

fun get :: "nat \<Rightarrow> addr option \<Rightarrow> 'k::linorder \<Rightarrow> ('k, 'v, 'v option \<times> bool) prog" where
  "get 0 p k s = Inl OutOfFuel"
| "get (Suc f) None k s = Inr ((None, True), s)"
| "get (Suc f) (Some n) k s =
     (if islock s n then Inr ((None, False), s)
      else
        (let s1 = upd n (\<lambda>x. x\<lparr>hpflag := hpflag x + 1\<rparr>) s
         in then_do
              (if k = key (node s1 n) then Inr ((Some (val (node s1 n)), True), s1)
               else if k < key (node s1 n) then get f (left (node s1 n)) k s1
               else get f (right (node s1 n)) k s1)
              (\<lambda>(r, s2). Inr (r, upd n (\<lambda>x. x\<lparr>hpflag := hpflag x - 1\<rparr>) s2))))"

text \<open>The retry loop of \<open>Get\<close>: the init statement, then the post statement after each failure.\<close>

fun Get_for :: "nat \<Rightarrow> 'k::linorder \<Rightarrow> 'v option \<times> bool \<Rightarrow> ('k, 'v, 'v option) prog" where
  "Get_for f k (b, True) s = Inr (b, s)"
| "Get_for 0 k (b, False) s = Inl OutOfFuel"
| "Get_for (Suc f) k (b, False) s = then_do (get f (root s) k s) (\<lambda>(r, s1). Get_for f k r s1)"

definition Get :: "nat \<Rightarrow> 'k::linorder \<Rightarrow> ('k, 'v, 'v option) prog" where
  "Get f k s = then_do (get f (root s) k s) (\<lambda>(r, s1). Get_for f k r s1)"


section \<open>Markers and rotations\<close>

text \<open>
  \<open>cleanMarker\<close> clears the marker of the node, of its parent if there is one, and of
  its left or right child; the child is dereferenced without a nil test.
\<close>

definition cleanMarker :: "addr \<Rightarrow> bool \<Rightarrow> ('k, 'v) RBTree \<Rightarrow> error + ('k, 'v) RBTree" where
  "cleanMarker n lft s =
     (let s1 = upd n (\<lambda>x. x\<lparr>marker := False\<rparr>) s;
          s2 = (case parent (node s1 n) of
                  None \<Rightarrow> s1
                | Some p \<Rightarrow> upd p (\<lambda>x. x\<lparr>marker := False\<rparr>) s1)
      in if lft then store (left (node s2 n)) (\<lambda>x. x\<lparr>marker := False\<rparr>) s2
         else store (right (node s2 n)) (\<lambda>x. x\<lparr>marker := False\<rparr>) s2)"

definition rotateLeft :: "addr option \<Rightarrow> ('k, 'v) RBTree \<Rightarrow> error + ('k, 'v) RBTree" where
  "rotateLeft q s =
     (case q of
        None \<Rightarrow> Inr s
      | Some n \<Rightarrow>
          (case right (node s n) of
             None \<Rightarrow> Inr s
           | Some _ \<Rightarrow>
               then_do (cleanMarker n False s) (\<lambda>s0.
                 let d = dir s0 n;
                     p = parent (node s0 n)
                 in (case right (node s0 n) of
                       None \<Rightarrow> Inl NilDeref
                     | Some newn \<Rightarrow>
                         let s1 = upd n (\<lambda>x. x\<lparr>right := left (node s0 newn)\<rparr>) s0;
                             s2 = upd n (\<lambda>x. x\<lparr>parent := Some newn\<rparr>) s1;
                             s3 = (case left (node s2 newn) of
                                     None \<Rightarrow> s2
                                   | Some c \<Rightarrow> upd c (\<lambda>x. x\<lparr>parent := Some n\<rparr>) s2);
                             s4 = upd newn (\<lambda>x. x\<lparr>parent := p\<rparr>) s3;
                             s5 = upd newn (\<lambda>x. x\<lparr>left := Some n\<rparr>) s4
                         in (case d of
                               dir_root \<Rightarrow> Inr (s5\<lparr>root := Some newn\<rparr>)
                             | dir_left \<Rightarrow> store p (\<lambda>x. x\<lparr>left := Some newn\<rparr>) s5
                             | dir_right \<Rightarrow> store p (\<lambda>x. x\<lparr>right := Some newn\<rparr>) s5)))))"

definition rotateRight :: "addr option \<Rightarrow> ('k, 'v) RBTree \<Rightarrow> error + ('k, 'v) RBTree" where
  "rotateRight q s =
     (case q of
        None \<Rightarrow> Inr s
      | Some n \<Rightarrow>
          (case left (node s n) of
             None \<Rightarrow> Inr s
           | Some _ \<Rightarrow>
               then_do (cleanMarker n True s) (\<lambda>s0.
                 let d = dir s0 n;
                     p = parent (node s0 n)
                 in (case left (node s0 n) of
                       None \<Rightarrow> Inl NilDeref
                     | Some newn \<Rightarrow>
                         let s1 = upd n (\<lambda>x. x\<lparr>left := right (node s0 newn)\<rparr>) s0;
                             s2 = upd n (\<lambda>x. x\<lparr>parent := Some newn\<rparr>) s1;
                             s3 = (case right (node s2 newn) of
                                     None \<Rightarrow> s2
                                   | Some c \<Rightarrow> upd c (\<lambda>x. x\<lparr>parent := Some n\<rparr>) s2);
                             s4 = upd newn (\<lambda>x. x\<lparr>parent := p\<rparr>) s3;
                             s5 = upd newn (\<lambda>x. x\<lparr>right := Some n\<rparr>) s4
                         in (case d of
                               dir_root \<Rightarrow> Inr (s5\<lparr>root := Some newn\<rparr>)
                             | dir_left \<Rightarrow> store p (\<lambda>x. x\<lparr>left := Some newn\<rparr>) s5
                             | dir_right \<Rightarrow> store p (\<lambda>x. x\<lparr>right := Some newn\<rparr>) s5)))))"

text \<open>
  One round of the two spin loops of \<open>getMarker\<close> on a node \<open>d\<close>: take the flag,
  set the marker, release the flag, append \<open>d\<close> to the marker slice.
\<close>

definition mark_one :: "addr \<Rightarrow> ('k, 'v) RBTree \<Rightarrow> error + ('k, 'v) RBTree" where
  "mark_one d s =
     (if flag (node s d) then Inl Spin
      else
        (let s1 = upd d (\<lambda>x. x\<lparr>flag := True\<rparr>) s
         in if marker (node s1 d) then Inl Spin
            else
              (let s2 = upd d (\<lambda>x. x\<lparr>marker := True\<rparr>) s1;
                   s3 = upd d (\<lambda>x. x\<lparr>flag := False\<rparr>) s2
               in Inr (s3\<lparr>markers := markers s3 @ [d]\<rparr>))))"

text \<open>The loop \<open>for i := 0; i < 4 && d != nil; i++\<close> of \<open>getMarker\<close>, by the rounds left.\<close>

fun mark_chain :: "nat \<Rightarrow> addr option \<Rightarrow> ('k, 'v) RBTree \<Rightarrow> error + ('k, 'v) RBTree" where
  "mark_chain 0 d s = Inr s"
| "mark_chain (Suc i) None s = Inr s"
| "mark_chain (Suc i) (Some d) s =
     then_do (mark_one d s) (\<lambda>s1. mark_chain i (parent (node s1 d)) s1)"

definition getMarker :: "addr option \<Rightarrow> bool \<Rightarrow> ('k, 'v) RBTree \<Rightarrow> error + ('k, 'v) RBTree" where
  "getMarker q isUp s =
     (case q of
        None \<Rightarrow> Inl NilDeref
      | Some n \<Rightarrow>
          (case parent (node s n) of
             None \<Rightarrow> Inr s
           | Some p \<Rightarrow>
               if isUp then
                 (if markers s = [] then Inr s
                  else
                    (case parent (node s (last (markers s))) of
                       None \<Rightarrow> Inr s
                     | Some d \<Rightarrow> mark_one d s))
               else mark_chain 4 (parent (node s p)) s))"

definition unlockMarker :: "('k, 'v) RBTree \<Rightarrow> ('k, 'v) RBTree" where
  "unlockMarker s =
     (fold (\<lambda>a. upd a (\<lambda>x. x\<lparr>marker := False\<rparr>)) (markers s) s)\<lparr>markers := []\<rparr>"

section \<open>Construction\<close>

definition new_node :: "color \<Rightarrow> 'k \<Rightarrow> 'v \<Rightarrow> addr option \<Rightarrow> ('k, 'v) RBTreeNode" where
  "new_node c k v p =
     \<lparr>col = c, left = None, right = None, parent = p, key = k, val = v,
      flag = False, hpflag = 0, marker = False\<rparr>"

text \<open>
  \<open>alloc\<close> is Go's \<open>&RBTreeNode{...}\<close>: a fresh address, the other fields zero.
\<close>

definition alloc :: "('k, 'v) RBTreeNode \<Rightarrow> ('k, 'v) RBTree \<Rightarrow> addr \<times> ('k, 'v) RBTree" where
  "alloc x s = (nxt s, s\<lparr>nodes := (nodes s)(nxt s := x), nxt := Suc (nxt s)\<rparr>)"

definition NewRBTree :: "'k \<Rightarrow> 'v \<Rightarrow> ('k, 'v) RBTree" where
  "NewRBTree k v =
     \<lparr>root = Some 0, count = 1, nodes = (\<lambda>_. new_node red k v None), nxt = 1,
      larea = [], markers = []\<rparr>"


section \<open>Local areas\<close>

text \<open>
  The step \<open>if ok := x.lock(); !ok { l.unlockArea(); return false }; *l = append(*l, x)\<close>
  of \<open>lockDelete\<close>, and the same step of \<open>lockInsert\<close>, which also refuses a marked
  node. Neither \<open>lock\<close> nor \<open>isMark\<close> writes a pointer field, so the node
  expression (\<open>n.sibling()\<close>, \<open>n.uncle()\<close>, ...) that the source evaluates again for
  the test and for the append names the same node; the model evaluates it once per step.
\<close>

definition acquire :: "addr \<Rightarrow> ('k, 'v) RBTree \<Rightarrow> bool \<times> ('k, 'v) RBTree" where
  "acquire a s =
     (case lock (Some a) s of
        (ok, s1) \<Rightarrow> if \<not> ok then (False, unlockArea s1) else (True, s1\<lparr>larea := larea s1 @ [a]\<rparr>))"

definition acquire_unmarked :: "addr \<Rightarrow> ('k, 'v) RBTree \<Rightarrow> bool \<times> ('k, 'v) RBTree" where
  "acquire_unmarked a s =
     (case lock (Some a) s of
        (ok, s1) \<Rightarrow>
          if \<not> ok \<or> isMark s1 a then (False, unlockArea s1)
          else (True, s1\<lparr>larea := larea s1 @ [a]\<rparr>))"

definition acquire_opt :: "addr option \<Rightarrow> ('k, 'v) RBTree \<Rightarrow> bool \<times> ('k, 'v) RBTree" where
  "acquire_opt q s = (case q of None \<Rightarrow> (True, s) | Some a \<Rightarrow> acquire a s)"

definition acquire_unmarked_opt :: "addr option \<Rightarrow> ('k, 'v) RBTree \<Rightarrow> bool \<times> ('k, 'v) RBTree" where
  "acquire_unmarked_opt q s = (case q of None \<Rightarrow> (True, s) | Some a \<Rightarrow> acquire_unmarked a s)"

definition lockDelete :: "addr \<Rightarrow> ('k, 'v) RBTree \<Rightarrow> bool \<times> ('k, 'v) RBTree" where
  "lockDelete n s =
     (if islock s n then (False, s)
      else
        (let s1 = s\<lparr>larea := larea s @ [n]\<rparr>
         in (case parent (node s1 n) of
               None \<Rightarrow> (True, s1)
             | Some p \<Rightarrow>
                 if islock s1 p then (False, unlockArea s1)
                 else
                   (let s2 = s1\<lparr>larea := larea s1 @ [p]\<rparr>
                    in (case sibling s2 n of
                          None \<Rightarrow> (True, s2)
                        | Some sb \<Rightarrow>
                            (case acquire sb s2 of
                               (False, s3) \<Rightarrow> (False, s3)
                             | (True, s3) \<Rightarrow>
                                 (case acquire_opt (left (node s3 sb)) s3 of
                                    (False, s4) \<Rightarrow> (False, s4)
                                  | (True, s4) \<Rightarrow> acquire_opt (right (node s4 sb)) s4)))))))"

definition lockInsert :: "addr \<Rightarrow> ('k, 'v) RBTree \<Rightarrow> bool \<times> ('k, 'v) RBTree" where
  "lockInsert n s =
     (if \<not> islock s n \<or> isMark s n then (False, s)
      else
        (let s1 = s\<lparr>larea := larea s @ [n]\<rparr>
         in (case parent (node s1 n) of
               None \<Rightarrow> (True, s1)
             | Some p \<Rightarrow>
                 (case acquire_unmarked p s1 of
                    (False, s2) \<Rightarrow> (False, s2)
                  | (True, s2) \<Rightarrow>
                      (case acquire_unmarked_opt (sibling s2 n) s2 of
                         (False, s3) \<Rightarrow> (False, s3)
                       | (True, s3) \<Rightarrow>
                           (case acquire_unmarked_opt (parent (node s3 p)) s3 of
                              (False, s4) \<Rightarrow> (False, s4)
                            | (True, s4) \<Rightarrow> acquire_unmarked_opt (uncle s4 n) s4))))))"

section \<open>Rebalancing after an insertion\<close>

text \<open>A field read through a pointer that may be nil.\<close>

definition field :: "(('k, 'v) RBTreeNode \<Rightarrow> 'a) \<Rightarrow> ('k, 'v) RBTree \<Rightarrow> addr option \<Rightarrow> error + 'a" where
  "field f s q = (case q of None \<Rightarrow> Inl NilDeref | Some a \<Rightarrow> Inr (f (node s a)))"

definition set_col :: "color \<Rightarrow> ('k, 'v) RBTreeNode \<Rightarrow> ('k, 'v) RBTreeNode" where
  "set_col c x = x\<lparr>col := c\<rparr>"

text \<open>\<open>n.parent.parent\<close>, panicking when \<open>n.parent\<close> is nil.\<close>

definition grandparent :: "('k, 'v) RBTree \<Rightarrow> addr \<Rightarrow> error + addr option" where
  "grandparent s n = field parent s (parent (node s n))"

text \<open>The two rotations and recolourings of the last two cases of \<open>maintainAfterInsert\<close>.\<close>

definition insert_rotate :: "addr \<Rightarrow> addr \<Rightarrow> ('k, 'v) RBTree \<Rightarrow> error + (bool \<times> ('k, 'v) RBTree)" where
  "insert_rotate n p s =
     (if dir s n \<noteq> dir s p then
        then_do
          (if dir s n = dir_left then
             then_do (rotateRight (parent (node s n)) s) (\<lambda>s1.
             then_do (rotateLeft (parent (node s1 n)) s1) (\<lambda>s2.
             store (left (node s2 n)) (set_col red) s2))
           else
             then_do (rotateLeft (parent (node s n)) s) (\<lambda>s1.
             then_do (rotateRight (parent (node s1 n)) s1) (\<lambda>s2.
             store (right (node s2 n)) (set_col red) s2)))
          (\<lambda>s3. Inr (True, upd n (set_col black) s3))
      else
        then_do (grandparent s n) (\<lambda>g.
        then_do (if dir s n = dir_left then rotateRight g s else rotateLeft g s) (\<lambda>s1.
        then_do (store (parent (node s1 n)) (set_col black) s1) (\<lambda>s2.
        then_do (store (sibling s2 n) (set_col red) s2) (\<lambda>s3.
        Inr (True, s3))))))"

fun maintainAfterInsert :: "nat \<Rightarrow> addr option \<Rightarrow> ('k, 'v, bool) prog" where
  "maintainAfterInsert 0 q s = Inl OutOfFuel"
| "maintainAfterInsert (Suc f) q s =
     (if isBlack s q then Inr (True, s)
      else
        (case q of
           None \<Rightarrow> Inr (True, s)
         | Some n \<Rightarrow>
             (case parent (node s n) of
                None \<Rightarrow> Inr (True, s)
              | Some p \<Rightarrow>
                  if col (node s p) = black then Inr (True, s)
                  else
                    (case parent (node s p) of
                       None \<Rightarrow> Inr (True, upd p (set_col black) s)
                     | Some g \<Rightarrow>
                         if isRed s (uncle s n) then
                           (case lockInsert g s of
                              (False, s1) \<Rightarrow> Inr (False, s1)
                            | (True, s1) \<Rightarrow>
                                then_do (store (parent (node s1 n)) (set_col black) s1) (\<lambda>s2.
                                then_do (grandparent s2 n) (\<lambda>g2.
                                then_do (store g2 (set_col red) s2) (\<lambda>s3.
                                then_do (store (uncle s3 n) (set_col black) s3) (\<lambda>s4.
                                then_do (grandparent s4 n) (\<lambda>g4.
                                then_do (maintainAfterInsert f g4 s4) (\<lambda>(ok, s5).
                                  if ok then Inr (True, s5)
                                  else
                                    then_do (store (parent (node s5 n)) (set_col red) s5) (\<lambda>s6.
                                    then_do (grandparent s6 n) (\<lambda>g6.
                                    then_do (store g6 (set_col black) s6) (\<lambda>s7.
                                    then_do (store (uncle s7 n) (set_col red) s7) (\<lambda>s8.
                                    Inr (False, s8))))))))))))
                         else insert_rotate n p s))))"

section \<open>Insertion\<close>

text \<open>
  The tail of \<open>insert\<close> once the descent has stopped at \<open>n\<close>: link a new red leaf,
  and under a red \<open>n\<close> take the local area and rebalance. The deferred
  \<open>l.unlockArea()\<close> and \<open>insert.unlock()\<close> run in this order when the function
  returns; the deferred \<open>n.unlock()\<close> is in \<open>insert\<close> below.
\<close>

definition unlink :: "addr \<Rightarrow> 'k::linorder \<Rightarrow> ('k, 'v) RBTree \<Rightarrow> ('k, 'v) RBTree" where
  "unlink n k s =
     (if k < key (node s n) then upd n (\<lambda>x. x\<lparr>left := None\<rparr>) s
      else upd n (\<lambda>x. x\<lparr>right := None\<rparr>) s)"

definition insert_leaf :: "nat \<Rightarrow> addr \<Rightarrow> 'k::linorder \<Rightarrow> 'v \<Rightarrow> ('k, 'v, bool \<times> bool) prog" where
  "insert_leaf f n k v s =
     (case alloc (new_node red k v (Some n)) s of
        (ins, s1) \<Rightarrow>
          (let s2 = (if k < key (node s1 n) then upd n (\<lambda>x. x\<lparr>left := Some ins\<rparr>) s1
                     else upd n (\<lambda>x. x\<lparr>right := Some ins\<rparr>) s1)
           in if isRed s2 (Some n) then
                (let s3 = snd (lock (Some ins) s2);
                     s4 = unlock (Some n) s3
                 in (case lockInsert ins s4 of
                       (True, s5) \<Rightarrow>
                         then_do (maintainAfterInsert f (Some ins) s5) (\<lambda>(ok, s6).
                           if \<not> ok then
                             Inr ((True, False), unlock (Some ins) (unlockArea (unlink n k s6)))
                           else Inr ((True, True), unlock (Some ins) (unlockArea s6)))
                     | (False, s5) \<Rightarrow>
                         Inr ((True, False), unlock (Some ins) (unlink n k s5))))
              else Inr ((True, True), s2)))"

fun insert :: "nat \<Rightarrow> addr option \<Rightarrow> 'k::linorder \<Rightarrow> 'v \<Rightarrow> ('k, 'v, bool \<times> bool) prog" where
  "insert 0 q k v s = Inl OutOfFuel"
| "insert (Suc f) q k v s =
     (case lock q s of
        (False, s1) \<Rightarrow> Inr ((False, False), s1)
      | (True, s1) \<Rightarrow>
          (case q of
             None \<Rightarrow> Inl NilDeref
           | Some n \<Rightarrow>
               (let s2 = unlock (parent (node s1 n)) s1
                in then_do
                     (if key (node s2 n) = k then
                        Inr ((False, True), upd n (\<lambda>x. x\<lparr>val := v\<rparr>) s2)
                      else if k < key (node s2 n) \<and> left (node s2 n) \<noteq> None then
                        insert f (left (node s2 n)) k v s2
                      else if key (node s2 n) < k \<and> right (node s2 n) \<noteq> None then
                        insert f (right (node s2 n)) k v s2
                      else insert_leaf f n k v s2)
                     (\<lambda>(r, s3). Inr (r, unlock (Some n) s3)))))"

text \<open>The retry loop of \<open>Insert\<close>; its body sleeps and empties the slice \<open>l\<close>.\<close>

fun Insert_for :: "nat \<Rightarrow> 'k::linorder \<Rightarrow> 'v \<Rightarrow> bool \<times> bool \<Rightarrow> ('k, 'v, bool) prog" where
  "Insert_for f k v (new, True) s = Inr (new, s)"
| "Insert_for 0 k v (new, False) s = Inl OutOfFuel"
| "Insert_for (Suc f) k v (new, False) s =
     (let s1 = s\<lparr>larea := []\<rparr>
      in then_do (insert f (root s1) k v s1) (\<lambda>(r, s2). Insert_for f k v r s2))"

definition Insert :: "nat \<Rightarrow> 'k::linorder \<Rightarrow> 'v \<Rightarrow> ('k, 'v) RBTree \<Rightarrow> error + ('k, 'v) RBTree" where
  "Insert f k v s =
     (if root s = None then
        (case alloc (new_node red k v None) s of (a, s1) \<Rightarrow> Inr (s1\<lparr>root := Some a\<rparr>))
      else
        (let s0 = s\<lparr>larea := []\<rparr>
         in then_do (insert f (root s0) k v s0) (\<lambda>(r, s1).
            then_do (Insert_for f k v r s1) (\<lambda>(new, s2).
              Inr (if new then s2\<lparr>count := count s2 + 1\<rparr> else s2)))))"


section \<open>Rebalancing after a deletion\<close>

definition sib :: "('k, 'v) RBTree \<Rightarrow> addr \<Rightarrow> error + addr" where
  "sib s n = (case sibling s n of None \<Rightarrow> Inl NilDeref | Some b \<Rightarrow> Inr b)"

text \<open>The first block of \<open>maintainAfterDelete\<close>: a red sibling is rotated above the parent.\<close>

definition delete_red_sibling :: "addr \<Rightarrow> ('k, 'v) RBTree \<Rightarrow> error + ('k, 'v) RBTree" where
  "delete_red_sibling n s =
     (if isRed s (sibling s n) then
        (let b = sibling s n
         in then_do (if dir s n = dir_left then rotateLeft (parent (node s n)) s
                     else rotateRight (parent (node s n)) s) (\<lambda>s1.
            then_do (store b (set_col black) s1) (\<lambda>s2.
            store (parent (node s2 n)) (set_col red) s2)))
      else Inr s)"

text \<open>The last two blocks: a red near nephew is rotated outward, then a red far nephew is rotated up.\<close>

definition delete_near_nephew :: "addr \<Rightarrow> addr \<Rightarrow> ('k, 'v) RBTree \<Rightarrow> error + ('k, 'v) RBTree" where
  "delete_near_nephew n b s =
     (if dir s n = dir_left \<and> isRed s (left (node s b)) \<and> isBlack s (right (node s b))
         \<or> dir s n = dir_right \<and> isRed s (right (node s b)) \<and> isBlack s (left (node s b))
      then
        then_do
          (if dir s n = dir_left then
             then_do (rotateRight (sibling s n) s) (\<lambda>s1.
             then_do (sib s1 n) (\<lambda>b1. store (right (node s1 b1)) (set_col red) s1))
           else
             then_do (rotateLeft (sibling s n) s) (\<lambda>s1.
             then_do (sib s1 n) (\<lambda>b1. store (left (node s1 b1)) (set_col red) s1)))
          (\<lambda>s2. store (sibling s2 n) (set_col black) s2)
      else Inr s)"

definition far_nephew_red :: "addr \<Rightarrow> ('k, 'v) RBTree \<Rightarrow> error + bool" where
  "far_nephew_red n s =
     (if dir s n = dir_left then
        then_do (sib s n) (\<lambda>b. Inr (isRed s (right (node s b))))
      else if dir s n = dir_right then
        then_do (sib s n) (\<lambda>b. Inr (isRed s (left (node s b))))
      else Inr False)"

definition delete_far_nephew :: "addr \<Rightarrow> ('k, 'v) RBTree \<Rightarrow> error + ('k, 'v) RBTree" where
  "delete_far_nephew n s =
     then_do (far_nephew_red n s) (\<lambda>far.
       if far then
         then_do (if dir s n = dir_left then rotateLeft (parent (node s n)) s
                  else rotateRight (parent (node s n)) s) (\<lambda>s1.
         then_do (grandparent s1 n) (\<lambda>g.
         then_do (field col s1 (parent (node s1 n))) (\<lambda>pc.
         then_do (field col s1 g) (\<lambda>gc.
         then_do (store g (set_col pc) s1) (\<lambda>s2.
         then_do (store (parent (node s2 n)) (set_col gc) s2) (\<lambda>s3.
         (case parent (node s3 n) of
            None \<Rightarrow> Inl NilDeref
          | Some p \<Rightarrow> store (sibling s3 p) (set_col black) s3)))))))
       else Inr s)"

fun maintainAfterDelete :: "nat \<Rightarrow> addr option \<Rightarrow> ('k, 'v, bool) prog" where
  "maintainAfterDelete 0 q s = Inl OutOfFuel"
| "maintainAfterDelete (Suc f) None s = Inl NilDeref"
| "maintainAfterDelete (Suc f) (Some n) s =
     (case parent (node s n) of
        None \<Rightarrow> Inr (True, s)
      | Some _ \<Rightarrow>
          then_do (delete_red_sibling n s) (\<lambda>s1.
          then_do (sib s1 n) (\<lambda>b.
            if isBlack s1 (left (node s1 b)) \<and> isBlack s1 (right (node s1 b))
               \<and> isRed s1 (parent (node s1 n))
            then
              then_do (store (sibling s1 n) (set_col red) s1) (\<lambda>s2.
              then_do (store (parent (node s2 n)) (set_col black) s2) (\<lambda>s3.
              Inr (True, s3)))
            else
              then_do (if isBlack s1 (left (node s1 b)) \<and> isBlack s1 (right (node s1 b))
                       then then_do (field col s1 (parent (node s1 n))) (\<lambda>c. Inr (c = black))
                       else Inr False) (\<lambda>both_black.
                if both_black then
                  then_do (store (sibling s1 n) (set_col red) s1) (\<lambda>s2.
                  then_do (getMarker (parent (node s2 n)) True s2) (\<lambda>s3.
                  then_do (maintainAfterDelete f (parent (node s3 n)) s3) (\<lambda>(_, s4).
                  Inr (True, s4))))
                else
                  then_do (delete_near_nephew n b s1) (\<lambda>s2.
                  then_do (delete_far_nephew n s2) (\<lambda>s3.
                  Inr (True, s3)))))))"

section \<open>Deletion\<close>

definition swap :: "addr \<Rightarrow> addr \<Rightarrow> ('k, 'v) RBTree \<Rightarrow> ('k, 'v) RBTree" where
  "swap n d s =
     (let nk = key (node s n); dk = key (node s d);
          s1 = upd n (\<lambda>x. x\<lparr>key := dk\<rparr>) s;
          s2 = upd d (\<lambda>x. x\<lparr>key := nk\<rparr>) s1;
          nv = val (node s2 n); dv = val (node s2 d);
          s3 = upd d (\<lambda>x. x\<lparr>val := nv\<rparr>) s2
      in upd n (\<lambda>x. x\<lparr>val := dv\<rparr>) s3)"

text \<open>The loop \<open>for s.left != nil { p = s; s = p.left }\<close> that finds the successor.\<close>

fun leftmost :: "nat \<Rightarrow> ('k, 'v) RBTree \<Rightarrow> addr \<Rightarrow> error + addr" where
  "leftmost 0 s a = Inl OutOfFuel"
| "leftmost (Suc f) s a = (case left (node s a) of None \<Rightarrow> Inr a | Some b \<Rightarrow> leftmost f s b)"

text \<open>
  The removal proper, after the local area and the markers have been taken: the value is
  read first; a node with two children swaps data with its successor, which becomes the
  node to unlink; a leaf is rebalanced if black and cut from its parent; a node with one
  child is replaced by it.
\<close>

definition delete_node :: "nat \<Rightarrow> addr \<Rightarrow> ('k, 'v, 'v option \<times> bool) prog" where
  "delete_node f n0 s =
     (let v = val (node s n0)
      in then_do
           (if left (node s n0) \<noteq> None \<and> right (node s n0) \<noteq> None then
              (case right (node s n0) of
                 None \<Rightarrow> Inl NilDeref
               | Some r \<Rightarrow> then_do (leftmost f s r) (\<lambda>sc. Inr (sc, swap n0 sc s)))
            else Inr (n0, s)) (\<lambda>(n, s1).
         then_do
           (if left (node s1 n) = None \<and> right (node s1 n) = None then
              then_do (if col (node s1 n) = black
                       then then_do (maintainAfterDelete f (Some n) s1) (\<lambda>(_, s2). Inr s2)
                       else Inr s1) (\<lambda>s2.
                if dir s2 n = dir_left
                then store (parent (node s2 n)) (\<lambda>x. x\<lparr>left := None\<rparr>) s2
                else store (parent (node s2 n)) (\<lambda>x. x\<lparr>right := None\<rparr>) s2)
            else
              (let rep = (if left (node s1 n) = None then right (node s1 n) else left (node s1 n));
                   p = parent (node s1 n)
               in then_do
                    (case dir s1 n of
                       dir_root \<Rightarrow> Inr (s1\<lparr>root := rep\<rparr>)
                     | dir_left \<Rightarrow> store p (\<lambda>x. x\<lparr>left := rep\<rparr>) s1
                     | dir_right \<Rightarrow> store p (\<lambda>x. x\<lparr>right := rep\<rparr>) s1) (\<lambda>s2.
                  then_do (store rep (\<lambda>x. x\<lparr>parent := p\<rparr>) s2) (\<lambda>s3.
                  store rep (set_col black) s3)))) (\<lambda>s4.
         Inr ((Some v, True), s4\<lparr>count := count s4 - 1\<rparr>))))"

text \<open>
  The branch \<open>case 0\<close> of \<open>delete\<close>: \<open>lockDelete\<close>, then \<open>getMarker\<close>, then the
  removal; the deferred \<open>n.unlockMarker(m)\<close> and \<open>l.unlockArea()\<close> run in this order
  on return.
\<close>

definition delete_found :: "nat \<Rightarrow> addr \<Rightarrow> ('k, 'v, 'v option \<times> bool) prog" where
  "delete_found f n s =
     (case lockDelete n s of
        (False, s1) \<Rightarrow> Inr ((None, False), s1)
      | (True, s1) \<Rightarrow>
          then_do (getMarker (Some n) False s1) (\<lambda>s2.
          then_do (delete_node f n s2) (\<lambda>(r, s3).
          Inr (r, unlockArea (unlockMarker s3)))))"

fun delete :: "nat \<Rightarrow> addr option \<Rightarrow> 'k::linorder \<Rightarrow> ('k, 'v, 'v option \<times> bool) prog" where
  "delete 0 q k s = Inl OutOfFuel"
| "delete (Suc f) None k s = Inr ((None, True), s)"
| "delete (Suc f) (Some n) k s =
     (case lock (Some n) s of
        (False, s1) \<Rightarrow> Inr ((None, False), s1)
      | (True, s1) \<Rightarrow>
          (let s2 = (case parent (node s1 n) of
                       None \<Rightarrow> s1
                     | Some p \<Rightarrow> unlock (parent (node s1 p)) s1)
           in then_do
                (if k = key (node s2 n) then delete_found f n s2
                 else if k < key (node s2 n) then delete f (left (node s2 n)) k s2
                 else delete f (right (node s2 n)) k s2)
                (\<lambda>(r, s3). Inr (r, unlock (Some n) s3))))"

text \<open>The retry loop of \<open>Delete\<close>; its body sleeps and empties the slices \<open>l\<close> and \<open>m\<close>.\<close>

fun Delete_for :: "nat \<Rightarrow> 'k::linorder \<Rightarrow> 'v option \<times> bool \<Rightarrow> ('k, 'v, 'v option) prog" where
  "Delete_for f k (b, True) s = Inr (b, s)"
| "Delete_for 0 k (b, False) s = Inl OutOfFuel"
| "Delete_for (Suc f) k (b, False) s =
     (let s1 = s\<lparr>larea := [], markers := []\<rparr>
      in then_do (delete f (root s1) k s1) (\<lambda>(r, s2). Delete_for f k r s2))"

definition Delete :: "nat \<Rightarrow> 'k::linorder \<Rightarrow> ('k, 'v, 'v option) prog" where
  "Delete f k s =
     then_do (if count s = 1 then then_do (field key s (root s)) (\<lambda>rk. Inr (rk = k))
              else Inr False) (\<lambda>last_one.
       if last_one then
         then_do (field val s (root s)) (\<lambda>v.
         Inr (Some v, s\<lparr>root := None, count := count s - 1\<rparr>))
       else
         (let s0 = s\<lparr>larea := [], markers := []\<rparr>
          in then_do (delete f (root s0) k s0) (\<lambda>(r, s1). Delete_for f k r s1)))"


section \<open>Observations and concrete trees\<close>

text \<open>
  The in-order traversal the specification counts nodes with: the keys of the nodes
  reached from a pointer through \<open>left\<close> and \<open>right\<close>, to a given depth.
\<close>

fun inorder_keys :: "nat \<Rightarrow> ('k, 'v) RBTree \<Rightarrow> addr option \<Rightarrow> 'k list" where
  "inorder_keys 0 s q = []"
| "inorder_keys (Suc f) s None = []"
| "inorder_keys (Suc f) s (Some n) =
     inorder_keys f s (left (node s n)) @ [key (node s n)] @ inorder_keys f s (right (node s n))"

text \<open>The heap after \<open>NewRBTree(2, 2)\<close> and \<open>Insert(1, 1)\<close>.\<close>

definition two_nodes :: "(int, int) RBTree" where
  "two_nodes =
     \<lparr>root = Some 0, count = 2,
      nodes = (\<lambda>_. new_node red 2 2 None)
        (0 := \<lparr>col = black, left = Some 1, right = None, parent = None, key = 2, val = 2,
                flag = False, hpflag = 0, marker = False\<rparr>,
         1 := \<lparr>col = red, left = None, right = None, parent = Some 0, key = 1, val = 1,
                flag = False, hpflag = 0, marker = False\<rparr>),
      nxt = 2, larea = [], markers = []\<rparr>"

text \<open>The same heap after \<open>Insert(3, 3)\<close>, and then after \<open>Insert(0, 0)\<close>.\<close>

definition three_nodes :: "(int, int) RBTree" where
  "three_nodes =
     \<lparr>root = Some 0, count = 3,
      nodes = (\<lambda>_. new_node red 2 2 None)
        (0 := \<lparr>col = black, left = Some 1, right = Some 2, parent = None, key = 2, val = 2,
                flag = False, hpflag = 0, marker = False\<rparr>,
         1 := \<lparr>col = red, left = None, right = None, parent = Some 0, key = 1, val = 1,
                flag = False, hpflag = 0, marker = False\<rparr>,
         2 := \<lparr>col = red, left = None, right = None, parent = Some 0, key = 3, val = 3,
                flag = False, hpflag = 0, marker = False\<rparr>),
      nxt = 3, larea = [], markers = []\<rparr>"

definition four_nodes :: "(int, int) RBTree" where
  "four_nodes =
     \<lparr>root = Some 0, count = 4,
      nodes = (\<lambda>_. new_node red 2 2 None)
        (0 := \<lparr>col = red, left = Some 1, right = Some 2, parent = None, key = 2, val = 2,
                flag = False, hpflag = 0, marker = False\<rparr>,
         1 := \<lparr>col = black, left = Some 3, right = None, parent = Some 0, key = 1, val = 1,
                flag = False, hpflag = 0, marker = False\<rparr>,
         2 := \<lparr>col = black, left = None, right = None, parent = Some 0, key = 3, val = 3,
                flag = False, hpflag = 0, marker = False\<rparr>,
         3 := \<lparr>col = red, left = None, right = None, parent = Some 1, key = 0, val = 0,
                flag = False, hpflag = 0, marker = False\<rparr>),
      nxt = 4, larea = [], markers = []\<rparr>"

text \<open>The heap after \<open>NewRBTree(1, 1)\<close> and \<open>Delete(1)\<close>: no root, the old node unreachable.\<close>

definition emptied :: "(int, int) RBTree" where
  "emptied = (NewRBTree 1 1)\<lparr>root := None, count := 0\<rparr>"

text \<open>
  A one-node tree whose root another writer holds (flag set) while a reader stands on it
  (reader count 1).
\<close>

definition held_root :: "(int, int) RBTree" where
  "held_root = upd 0 (\<lambda>x. x\<lparr>flag := True, hpflag := 1\<rparr>) (NewRBTree 1 1)"

text \<open>The heap after \<open>NewRBTree(1, 1)\<close>, \<open>Delete(1)\<close> and \<open>Insert(1, 1)\<close>.\<close>

definition reinserted :: "(int, int) RBTree" where
  "reinserted =
     \<lparr>root = Some 1, count = 0, nodes = (\<lambda>_. new_node red 1 1 None), nxt = 2,
      larea = [], markers = []\<rparr>"



section \<open>Notions the claims are stated with\<close>

definition opt :: "'a option \<Rightarrow> 'a list" where
  "opt q = (case q of None \<Rightarrow> [] | Some a \<Rightarrow> [a])"



text \<open>The slices \<open>l\<close> and \<open>m\<close> as \<open>Delete\<close> makes them, and as its loop body resets them.\<close>

definition fresh_slices :: "('k, 'v) RBTree \<Rightarrow> ('k, 'v) RBTree" where
  "fresh_slices s = s\<lparr>larea := [], markers := []\<rparr>"


section \<open>Trees in the heap\<close>

text \<open>
  The shape of a tree of nodes: which address sits where. \<open>heap_tree s par t p\<close> says
  that the pointer \<open>p\<close> leads, through the \<open>left\<close> and \<open>right\<close> fields of the heap
  \<open>s\<close>, to exactly the nodes of \<open>t\<close> in the places \<open>t\<close> gives them, and that every
  \<open>parent\<close> field names the node above (\<open>par\<close> for the topmost).
\<close>

datatype shape = Tip | Fork shape addr shape

fun addrs :: "shape \<Rightarrow> addr list" where
  "addrs Tip = []"
| "addrs (Fork l a r) = addrs l @ a # addrs r"

fun height :: "shape \<Rightarrow> nat" where
  "height Tip = 0"
| "height (Fork l a r) = Suc (max (height l) (height r))"

fun heap_tree :: "('k, 'v) RBTree \<Rightarrow> addr option \<Rightarrow> shape \<Rightarrow> addr option \<Rightarrow> bool" where
  "heap_tree s par Tip p = (p = None)"
| "heap_tree s par (Fork l a r) p =
     (p = Some a \<and> parent (node s a) = par
      \<and> heap_tree s (Some a) l (left (node s a))
      \<and> heap_tree s (Some a) r (right (node s a)))"

text \<open>The heap with the writer flags of the nodes in \<open>A\<close> released.\<close>

definition cleared :: "addr set \<Rightarrow> ('k, 'v) RBTree \<Rightarrow> ('k, 'v) RBTree" where
  "cleared A s = s\<lparr>nodes := (\<lambda>x. if x \<in> A then (nodes s x)\<lparr>flag := False\<rparr> else nodes s x)\<rparr>"

text \<open>The two-node tree as a shape.\<close>

definition two_shape :: shape where
  "two_shape = Fork (Fork Tip 1 Tip) 0 Tip"

section \<open>Paths from the root\<close>

text \<open>A position inside a tree is a subtree together with the path from it up to the
  root. Each step of the path records the node passed and the subtree on the other
  side: \<open>LeftOf a r\<close> says that the position is the left child of \<open>a\<close>, whose right
  subtree is \<open>r\<close>; \<open>RightOf l a\<close> that it is the right child of \<open>a\<close>, whose left
  subtree is \<open>l\<close>. The path is the chain of \<open>parent\<close> pointers that \<open>insert\<close>
  descends along and \<open>maintainAfterInsert\<close> climbs back.\<close>

datatype frame = LeftOf addr shape | RightOf shape addr

text \<open>The node of a step.\<close>

fun faddr :: "frame \<Rightarrow> addr" where
  "faddr (LeftOf a r) = a"
| "faddr (RightOf l a) = a"

text \<open>The whole tree: the subtree put back under its path.\<close>

fun plug :: "shape \<Rightarrow> frame list \<Rightarrow> shape" where
  "plug t [] = t"
| "plug t (LeftOf a r # c) = plug (Fork t a r) c"
| "plug t (RightOf l a # c) = plug (Fork l a t) c"





text \<open>The pointer to a shape: its topmost node, nil for the empty shape.\<close>

fun top :: "shape \<Rightarrow> addr option" where
  "top Tip = None"
| "top (Fork l a r) = Some a"

text \<open>Two heaps agree on the \<open>left\<close>, \<open>right\<close> and \<open>parent\<close> fields of the nodes
  of \<open>A\<close>.\<close>

definition same_links :: "addr set \<Rightarrow> ('k, 'v) RBTree \<Rightarrow> ('k, 'v) RBTree \<Rightarrow> bool" where
  "same_links A s s' =
     (\<forall>a\<in>A. left (node s' a) = left (node s a) \<and> right (node s' a) = right (node s a)
        \<and> parent (node s' a) = parent (node s a))"

section \<open>What the procedures leave behind\<close>



text \<open>The heap after a successful \<open>a.lock()\<close> followed by
  \<open>t.larea = append(t.larea, a)\<close>, and the same for a list of nodes in turn.\<close>

definition take_flag :: "addr \<Rightarrow> ('k, 'v) RBTree \<Rightarrow> ('k, 'v) RBTree" where
  "take_flag a s = (upd a (\<lambda>x. x\<lparr>flag := True\<rparr>) s)\<lparr>larea := larea s @ [a]\<rparr>"

definition take_flags :: "addr list \<Rightarrow> ('k, 'v) RBTree \<Rightarrow> ('k, 'v) RBTree" where
  "take_flags as s = fold take_flag as s"

text \<open>The nodes that \<open>lockInsert\<close> acquires besides the node \<open>g\<close> it is called on,
  in the order of the source: parent, sibling, grandparent, uncle.\<close>

definition ring :: "('k, 'v) RBTree \<Rightarrow> addr \<Rightarrow> addr list" where
  "ring s g =
     (case parent (node s g) of
        None \<Rightarrow> []
      | Some gg \<Rightarrow> gg # opt (sibling s g) @ opt (parent (node s gg)) @ opt (uncle s g))"

text \<open>\<open>inert s s'\<close>: the heaps differ at most in colours, writer flags and the two
  slices \<open>larea\<close> and \<open>markers\<close>.\<close>

definition inert :: "('k, 'v) RBTree \<Rightarrow> ('k, 'v) RBTree \<Rightarrow> bool" where
  "inert s s' =
     (root s' = root s \<and> count s' = count s \<and> nxt s' = nxt s
      \<and> (\<forall>a. left (node s' a) = left (node s a) \<and> right (node s' a) = right (node s a)
            \<and> parent (node s' a) = parent (node s a) \<and> key (node s' a) = key (node s a)
            \<and> val (node s' a) = val (node s a) \<and> hpflag (node s' a) = hpflag (node s a)
            \<and> marker (node s' a) = marker (node s a)))"

text \<open>The subtree on the other side of a step, the direction of the position below
  the step's node (what \<open>dir\<close> computes there), and the tree rooted at the node of a
  step.\<close>

fun other :: "frame \<Rightarrow> shape" where
  "other (LeftOf a r) = r"
| "other (RightOf l a) = l"


fun fill :: "shape \<Rightarrow> frame \<Rightarrow> shape" where
  "fill t (LeftOf a r) = Fork t a r"
| "fill t (RightOf l a) = Fork l a t"


section \<open>Invariants of an insertion\<close>



text \<open>The keys of a list of nodes.\<close>

definition keys_of :: "('k, 'v) RBTree \<Rightarrow> addr list \<Rightarrow> 'k list" where
  "keys_of s as = map (\<lambda>a. key (node s a)) as"

text \<open>\<open>tree_inv s T\<close>, which holds between operations: the heap holds the tree \<open>T\<close>
  under \<open>t.root\<close>, no node occurs twice, the keys increase strictly along the
  in-order traversal, and every node is allocated and at rest (writer flag clear,
  no reader inside, marker clear). Colours are not constrained.\<close>

definition tree_inv :: "('k::linorder, 'v) RBTree \<Rightarrow> shape \<Rightarrow> bool" where
  "tree_inv s T =
     (heap_tree s None T (root s) \<and> distinct (addrs T)
      \<and> sorted_wrt (<) (keys_of s (addrs T))
      \<and> (\<forall>a\<in>set (addrs T). \<not> flag (node s a) \<and> sint (hpflag (node s a)) \<le> 0
            \<and> \<not> marker (node s a) \<and> a < nxt s))"


text \<open>The heap after the leaf case of \<open>insert\<close> at node \<open>n\<close>: a red node with \<open>k\<close>
  and \<open>v\<close> is allocated with parent \<open>n\<close> and hung on the side that the comparison
  with \<open>n.key\<close> selects.\<close>

definition link :: "addr \<Rightarrow> 'k::linorder \<Rightarrow> 'v \<Rightarrow> ('k, 'v) RBTree \<Rightarrow> ('k, 'v) RBTree" where
  "link n k v s =
     (let s1 = snd (alloc (new_node red k v (Some n)) s)
      in if k < key (node s1 n) then upd n (\<lambda>x. x\<lparr>left := Some (nxt s)\<rparr>) s1
         else upd n (\<lambda>x. x\<lparr>right := Some (nxt s)\<rparr>) s1)"



section \<open>Evaluation\<close>

lemmas rb_defs = then_do_def node_def upd_def store_def dir_def uncle_def sibling_def
  isRed_def isBlack_def lock_def islock_def isMark_def unlock_def unlockArea_def
  cleanMarker_def rotateLeft_def rotateRight_def mark_one_def getMarker_def unlockMarker_def
  new_node_def alloc_def NewRBTree_def acquire_def acquire_unmarked_def acquire_opt_def
  acquire_unmarked_opt_def lockDelete_def lockInsert_def field_def set_col_def
  grandparent_def insert_rotate_def unlink_def insert_leaf_def Insert_def sib_def
  delete_red_sibling_def delete_near_nephew_def far_nephew_red_def delete_far_nephew_def
  swap_def delete_node_def delete_found_def Delete_def Get_def

lemma flag_same: "flag x = b \<Longrightarrow> x\<lparr>flag := b\<rparr> = x"
  by simp

lemma Insert_1_into_2: "Insert (Suc (Suc f)) 1 1 (NewRBTree 2 2) = Inr two_nodes"
  by (simp add: rb_defs two_nodes_def Let_def fun_eq_iff)

lemma Insert_3_into_2_1: "Insert (Suc (Suc f)) 3 3 two_nodes = Inr three_nodes"
  by (simp add: rb_defs two_nodes_def three_nodes_def Let_def fun_eq_iff)

lemma Insert_0_into_2_1_3: "Insert (Suc (Suc (Suc (Suc f)))) 0 0 three_nodes = Inr four_nodes"
  by (simp add: rb_defs three_nodes_def four_nodes_def Let_def fun_eq_iff)

lemma Delete_last: "Delete f 1 (NewRBTree 1 1) = Inr (Some 1, emptied)"
  by (simp add: rb_defs emptied_def)

lemma delete_1_conflict:
  "delete (Suc (Suc f)) (Some 0) 1 two_nodes = Inr ((None, False), two_nodes)"
  by (simp add: rb_defs two_nodes_def Let_def fun_eq_iff)

lemma delete_1_attempt:
  "delete f (Some 0) 1 two_nodes = Inl OutOfFuel
   \<or> delete f (Some 0) 1 two_nodes = Inr ((None, False), two_nodes)"
proof (cases f)
  case 0
  then show ?thesis by simp
next
  case (Suc g)
  have "delete (Suc 0) (Some 0) 1 two_nodes = Inl OutOfFuel"
    by (simp add: rb_defs two_nodes_def Let_def)
  with Suc show ?thesis using delete_1_conflict by (cases g) simp_all
qed

lemma two_nodes_fields:
  "two_nodes\<lparr>larea := [], markers := []\<rparr> = two_nodes"
  "root two_nodes = Some 0" "count two_nodes = 2"
  by (simp_all add: two_nodes_def)

lemma Delete_for_1_conflict: "Delete_for f 1 (b, False) two_nodes = Inl OutOfFuel"
proof (induction f arbitrary: b)
  case 0
  show ?case by simp
next
  case (Suc f)
  from delete_1_attempt [of f] show ?case
  proof
    assume "delete f (Some 0) 1 two_nodes = Inl OutOfFuel"
    then show ?thesis by (simp add: two_nodes_fields then_do_def)
  next
    assume "delete f (Some 0) 1 two_nodes = Inr ((None, False), two_nodes)"
    then show ?thesis using Suc.IH [of None] by (simp add: two_nodes_fields then_do_def)
  qed
qed

lemma Insert_into_emptied: "Insert f 1 1 emptied = Inr reinserted"
  by (simp add: rb_defs emptied_def reinserted_def fun_eq_iff)



section \<open>Local areas and the retry loop\<close>














section \<open>Descent for an absent key\<close>

lemma node_upd: "node (upd a f s) b = (if b = a then f (node s a) else node s b)"
  by (simp add: node_def upd_def)

lemma node_cleared: "node (cleared A s) x = (if x \<in> A then (node s x)\<lparr>flag := False\<rparr> else node s x)"
  by (simp add: node_def cleared_def)

lemma cleared_cleared: "cleared A (cleared B s) = cleared (A \<union> B) s"
  by (auto simp: cleared_def fun_eq_iff)

lemma cleared_empty: "cleared {} s = s"
  by (simp add: cleared_def)

lemma unlock_cleared: "unlock q s = cleared (set_option q) s"
  by (cases q) (auto simp: unlock_def upd_def cleared_def fun_eq_iff)

lemma cleared_lock: "a \<in> A \<Longrightarrow> cleared A (upd a (\<lambda>x. x\<lparr>flag := True\<rparr>) s) = cleared A s"
  by (auto simp: upd_def cleared_def fun_eq_iff)

lemma cleared_clear: "\<forall>a\<in>A. \<not> flag (node s a) \<Longrightarrow> cleared A s = s"
proof -
  assume a: "\<forall>a\<in>A. \<not> flag (node s a)"
  have "(\<lambda>x. if x \<in> A then (nodes s x)\<lparr>flag := False\<rparr> else nodes s x) = nodes s"
    using a by (auto simp: fun_eq_iff node_def flag_same)
  then show ?thesis by (simp add: cleared_def)
qed

lemma heap_tree_cleared: "heap_tree (cleared A s) par t p = heap_tree s par t p"
  by (induction t arbitrary: par p) (simp_all add: node_cleared)

lemma heap_tree_lock: "heap_tree (upd a (\<lambda>x. x\<lparr>flag := b\<rparr>) s) par t p = heap_tree s par t p"
  by (induction t arbitrary: par p) (simp_all add: node_upd)

lemma lock_free:
  "\<not> flag (node s a) \<Longrightarrow> sint (hpflag (node s a)) \<le> 0 \<Longrightarrow>
   lock (Some a) s = (True, upd a (\<lambda>x. x\<lparr>flag := True\<rparr>) s)"
  by (simp add: lock_def node_upd word_sless_alt Let_def)

lemma delete_absent:
  "heap_tree s par t p \<Longrightarrow> distinct (addrs t) \<Longrightarrow>
   \<forall>a\<in>set (addrs t). \<not> flag (node s a) \<and> sint (hpflag (node s a)) \<le> 0 \<and> key (node s a) \<noteq> k \<Longrightarrow>
   height t < f \<Longrightarrow>
   \<exists>A. A \<subseteq> set (addrs t) \<union> set_option par
          \<union> set_option (case par of None \<Rightarrow> None | Some q \<Rightarrow> parent (node s q))
      \<and> delete f p k s = Inr ((None, True), cleared A s)"
proof (induction t arbitrary: s par p f)
  case Tip
  then obtain g where "f = Suc g" by (cases f) auto
  with Tip show ?case
    by (intro exI [of _ "{}"]) (simp add: cleared_empty)
next
  case (Fork l a r)
  from Fork.prems obtain g where f: "f = Suc g" by (cases f) auto
  let ?gp = "case par of None \<Rightarrow> None | Some q \<Rightarrow> parent (node s q)"
  define s1 where "s1 = upd a (\<lambda>x. x\<lparr>flag := True\<rparr>) s"
  define G where "G = set_option (case par of None \<Rightarrow> None | Some q \<Rightarrow> parent (node s1 q))"
  define s2 where "s2 = cleared G s1"
  from Fork.prems have p: "p = Some a" and par: "parent (node s a) = par"
    and hl: "heap_tree s (Some a) l (left (node s a))"
    and hr: "heap_tree s (Some a) r (right (node s a))"
    by simp_all
  from Fork.prems have fa: "\<not> flag (node s a)" "sint (hpflag (node s a)) \<le> 0" "key (node s a) \<noteq> k"
    by simp_all
  have lk: "lock (Some a) s = (True, s1)"
    unfolding s1_def using fa(1,2) by (rule lock_free)
  have G: "G = set_option ?gp"
    by (simp add: G_def s1_def node_upd split: option.splits)
  have s2: "(case parent (node s1 a) of None \<Rightarrow> s1
             | Some q \<Rightarrow> unlock (parent (node s1 q)) s1) = s2"
    using par by (simp add: s2_def G_def s1_def node_upd unlock_cleared cleared_empty split: option.splits)
  have n2: "left (node s2 a) = left (node s a)" "right (node s2 a) = right (node s a)"
    "key (node s2 a) = key (node s a)" "parent (node s2 a) = par"
    using par by (simp_all add: s2_def s1_def node_cleared node_upd)
  have sub: "\<And>c. c \<in> {l, r} \<Longrightarrow>
      \<forall>x\<in>set (addrs c). \<not> flag (node s2 x) \<and> sint (hpflag (node s2 x)) \<le> 0 \<and> key (node s2 x) \<noteq> k"
    using Fork.prems(2,3) by (auto simp: s2_def s1_def node_cleared node_upd)
  have h2: "\<And>c q. heap_tree s (Some a) c q \<Longrightarrow> heap_tree s2 (Some a) c q"
    by (simp add: s2_def s1_def heap_tree_cleared heap_tree_lock)
  have d: "distinct (addrs l)" "height l < g" "distinct (addrs r)" "height r < g"
    using Fork.prems(2,4) f by auto
  have gp2: "set_option (Some a) \<union> set_option (case Some a of None \<Rightarrow> None
      | Some q \<Rightarrow> parent (node s2 q)) = {a} \<union> set_option par"
    using n2(4) by simp
  have fin: "\<And>A. A \<subseteq> set (addrs l) \<union> set (addrs r) \<union> {a} \<union> set_option par \<Longrightarrow>
      \<exists>B. B \<subseteq> set (addrs (Fork l a r)) \<union> set_option par \<union> set_option ?gp
        \<and> unlock (Some a) (cleared A s2) = cleared B s"
  proof -
    fix A assume A: "A \<subseteq> set (addrs l) \<union> set (addrs r) \<union> {a} \<union> set_option par"
    have "unlock (Some a) (cleared A s2) = cleared ({a} \<union> A \<union> G) s"
      by (simp add: unlock_cleared s2_def s1_def cleared_cleared cleared_lock Un_assoc)
    with A G show "\<exists>B. B \<subseteq> set (addrs (Fork l a r)) \<union> set_option par \<union> set_option ?gp
        \<and> unlock (Some a) (cleared A s2) = cleared B s"
      by (intro exI [of _ "{a} \<union> A \<union> G"]) auto
  qed
  show ?case
  proof (cases "k < key (node s a)")
    case True
    from Fork.IH(1) [OF h2 [OF hl] d(1) sub [of l] d(2)] gp2 obtain A where
      A: "A \<subseteq> set (addrs l) \<union> {a} \<union> set_option par"
      "delete g (left (node s a)) k s2 = Inr ((None, True), cleared A s2)"
      by (auto simp: Un_assoc)
    from fin [of A] A(1) obtain B where
      B: "B \<subseteq> set (addrs (Fork l a r)) \<union> set_option par \<union> set_option ?gp"
        "unlock (Some a) (cleared A s2) = cleared B s"
      by blast
    from True fa(3) A(2) B show ?thesis
      by (intro exI [of _ B]) (simp add: f p lk s2 n2 then_do_def)
  next
    case False
    from Fork.IH(2) [OF h2 [OF hr] d(3) sub [of r] d(4)] gp2 obtain A where
      A: "A \<subseteq> set (addrs r) \<union> {a} \<union> set_option par"
      "delete g (right (node s a)) k s2 = Inr ((None, True), cleared A s2)"
      by (auto simp: Un_assoc)
    from fin [of A] A(1) obtain B where
      B: "B \<subseteq> set (addrs (Fork l a r)) \<union> set_option par \<union> set_option ?gp"
        "unlock (Some a) (cleared A s2) = cleared B s"
      by blast
    from False fa(3) A(2) B show ?thesis
      by (intro exI [of _ B]) (simp add: f p lk s2 n2 then_do_def)
  qed
qed


lemma heap_tree_slices:
  "heap_tree (s\<lparr>larea := x, markers := y\<rparr>) par t p = heap_tree s par t p"
  by (induction t arbitrary: par p) (simp_all add: node_def)

section \<open>Paths in the heap\<close>




lemma same_links_mono: "same_links A s s' \<Longrightarrow> B \<subseteq> A \<Longrightarrow> same_links B s s'"
  by (auto simp: same_links_def)



section \<open>Rotations\<close>

lemma upd_fields [simp]:
  "root (upd a f s) = root s" "count (upd a f s) = count s" "nxt (upd a f s) = nxt s"
  "larea (upd a f s) = larea s" "markers (upd a f s) = markers s"
  by (simp_all add: upd_def)

lemma node_root_update [simp]: "node (s\<lparr>root := r\<rparr>) a = node s a"
  by (simp add: node_def)

















section \<open>Acquiring the local area of an insertion\<close>

lemma inert_refl: "inert s s"
  by (simp add: inert_def)




lemma inert_dir: "inert s s' \<Longrightarrow> dir s' n = dir s n"
  by (simp add: inert_def dir_def split: option.splits)

lemma inert_sibling: "inert s s' \<Longrightarrow> sibling s' n = sibling s n"
  by (simp add: inert_dir sibling_def split: option.splits) (simp add: inert_def)

lemma inert_uncle:
  assumes "inert s s'"
  shows "uncle s' n = uncle s n"
proof -
  have "\<And>a. parent (node s' a) = parent (node s a)" "\<And>a. left (node s' a) = left (node s a)"
    "\<And>a. right (node s' a) = right (node s a)"
    using assms by (simp_all add: inert_def)
  then show ?thesis
    by (simp add: uncle_def inert_dir [OF assms] split: option.splits)
qed

lemma inert_ring:
  assumes "inert s s'"
  shows "ring s' n = ring s n"
proof -
  have "\<And>a. parent (node s' a) = parent (node s a)"
    using assms by (simp add: inert_def)
  then show ?thesis
    by (simp add: ring_def inert_sibling [OF assms] inert_uncle [OF assms] split: option.splits)
qed

lemma node_larea_update [simp]: "node (s\<lparr>larea := x\<rparr>) a = node s a"
  by (simp add: node_def)


lemma take_flag_fields [simp]:
  "root (take_flag a s) = root s" "count (take_flag a s) = count s" "nxt (take_flag a s) = nxt s"
  "larea (take_flag a s) = larea s @ [a]" "markers (take_flag a s) = markers s"
  by (simp_all add: take_flag_def)







lemma take_flags_Nil [simp]: "take_flags [] s = s"
  by (simp add: take_flags_def)






section \<open>Positions and their neighbours\<close>

lemma plug_fill: "plug t (fr # c) = plug (fill t fr) c"
  by (cases fr) simp_all

lemma top_fill [simp]: "top (fill t fr) = Some (faddr fr)"
  by (cases fr) simp_all


lemma addrs_fill: "set (addrs (fill t fr)) = set (addrs t) \<union> {faddr fr} \<union> set (addrs (other fr))"
  by (cases fr) auto










section \<open>Rebalancing keeps the tree\<close>

















lemma plug_fill2: "plug t (fp # fg # c) = plug (fill (fill t fp) fg) c"
  by (simp add: plug_fill)



section \<open>Releasing the local area\<close>




lemma cleared_fields [simp]:
  "root (cleared A s) = root s" "count (cleared A s) = count s" "nxt (cleared A s) = nxt s"
  "larea (cleared A s) = larea s" "markers (cleared A s) = markers s"
  by (simp_all add: cleared_def)








section \<open>Hanging a new leaf\<close>


lemma link_fields [simp]:
  "root (link n k v s) = root s" "count (link n k v s) = count s"
  "nxt (link n k v s) = Suc (nxt s)" "larea (link n k v s) = larea s"
  "markers (link n k v s) = markers s"
  by (simp_all add: link_def alloc_def Let_def)






section \<open>The descent of insert\<close>








lemma height_pos: "t \<noteq> Tip \<Longrightarrow> 0 < height t"
  by (cases t) simp_all



section \<open>Insert and Get on a tree at rest\<close>

lemma node_count_update [simp]: "node (s\<lparr>count := n\<rparr>) a = node s a"
  by (simp add: node_def)









text \<open>The constructor and the three-node tree satisfy the invariant.\<close>

lemma tree_inv_NewRBTree: "tree_inv (NewRBTree k v) (Fork Tip 0 Tip)"
  by (simp add: tree_inv_def NewRBTree_def new_node_def keys_of_def node_def)


section \<open>The claims\<close>

text \<open>
  C1. Run sequentially, \<open>Delete(k)\<close> should return the value stored under a present key.
  On the two-node tree built by \<open>NewRBTree(2, 2)\<close> and \<open>Insert(1, 1)\<close> it does not:
  \<open>delete\<close> takes the flag of the node holding key 1, \<open>lockDelete\<close> then finds that
  flag set and reports a conflict, every flag is released, and the retry loop repeats the
  same attempt on the same heap. Whatever the number of attempts allowed, \<open>Delete(1)\<close>
  has not returned.
\<close>

theorem Delete_present_never_returns:
  "Insert (Suc (Suc g)) 1 1 (NewRBTree 2 2) = Inr two_nodes
   \<and> Delete f 1 two_nodes = Inl OutOfFuel"
proof -
  from delete_1_attempt [of f] have "Delete f 1 two_nodes = Inl OutOfFuel"
  proof
    assume "delete f (Some 0) 1 two_nodes = Inl OutOfFuel"
    then show ?thesis by (simp add: Delete_def two_nodes_fields then_do_def)
  next
    assume "delete f (Some 0) 1 two_nodes = Inr ((None, False), two_nodes)"
    then show ?thesis
      using Delete_for_1_conflict [of f None]
      by (simp add: Delete_def two_nodes_fields then_do_def)
  qed
  then show ?thesis using Insert_1_into_2 by simp
qed



text \<open>
  C10. On a tree with no root, \<open>Get(k)\<close> returns none for every key, on its first
  attempt, without a panic and without touching the heap.
\<close>

theorem Get_empty: "root s = None \<Longrightarrow> Get (Suc f) k s = Inr (None, s)"
  by (simp add: Get_def then_do_def)

theorem Get_empty_witness:
  "Delete 1 1 (NewRBTree 1 1) = Inr (Some 1, emptied)
   \<and> root emptied = None
   \<and> Get (Suc 0) 7 emptied = Inr (None, emptied)"
proof -
  have h: "root emptied = None"
    by (simp add: emptied_def)
  from h Get_empty [OF h, of 0 7] Delete_last [of 1] show ?thesis by simp
qed


text \<open>
  C2. After the constructor and at least one \<open>Insert\<close> the root should be black. The
  specification's own scenario, keys 2, 1, 3, 0, ends with a red root: inserting 0 under
  the red node 1 with red uncle 3 recolours the grandparent (the root, key 2) red and
  recurses on it, and \<open>maintainAfterInsert\<close> returns at \<open>n.parent == nil\<close> without
  recolouring the root.
\<close>

theorem root_red_after_2_1_3_0:
  "then_do (Insert (Suc (Suc (Suc (Suc f)))) 1 1 (NewRBTree 2 2)) (\<lambda>s1.
   then_do (Insert (Suc (Suc (Suc (Suc f)))) 3 3 s1) (\<lambda>s2.
   Insert (Suc (Suc (Suc (Suc f)))) 0 0 s2)) = Inr four_nodes
   \<and> root four_nodes = Some 0
   \<and> key (node four_nodes 0) = 2
   \<and> col (node four_nodes 0) = red"
  using Insert_1_into_2 [of "Suc (Suc f)"] Insert_3_into_2_1 [of "Suc (Suc f)"]
    Insert_0_into_2_1_3 [of f]
  by (simp add: then_do_def four_nodes_def node_def)


text \<open>
  C3. \<open>count\<close> should equal the number of nodes after every sequence of operations.
  \<open>NewRBTree(1, 1)\<close>, \<open>Delete(1)\<close>, \<open>Insert(1, 1)\<close> leaves a tree whose in-order
  traversal has one key while \<open>count\<close> is 0: the branch of \<open>Insert\<close> for an empty
  tree makes the root and returns without \<open>t.count++\<close>.
\<close>

theorem count_zero_with_one_node:
  "then_do (Delete f 1 (NewRBTree 1 1)) (\<lambda>(v, s1). Insert f 1 1 s1) = Inr reinserted
   \<and> count reinserted = 0
   \<and> inorder_keys (Suc g) reinserted (root reinserted) = [1]"
proof -
  have "inorder_keys (Suc g) reinserted (root reinserted) = [1]"
    by (cases g) (simp_all add: reinserted_def node_def new_node_def)
  then show ?thesis
    using Delete_last [of f] Insert_into_emptied [of f]
    by (simp add: then_do_def reinserted_def)
qed










text \<open>
  C7. A change of \<open>t.root\<close> should happen with the root's writer flag held by the
  operation. On a one-node tree whose root is flagged by another writer and read by a
  reader, \<open>lock\<close> on the root fails, and yet \<open>Delete\<close> of its key sets the root to
  nil: the branch for the last node reads and writes \<open>t.root\<close> and calls \<open>lock\<close>
  nowhere. The heap of nodes is untouched.
\<close>

theorem root_dropped_without_flag:
  "lock (root held_root) held_root = (False, held_root)
   \<and> Delete f 1 held_root = Inr (Some 1, held_root\<lparr>root := None, count := 0\<rparr>)"
  by (simp add: rb_defs held_root_def)


text \<open>
  C9. Take a heap whose root leads to a tree of distinct nodes, none flagged, none with a
  reader counted, none holding the key \<open>k\<close>; \<open>count\<close> is 1 only if there is a root
  (as in every heap the operations produce). Then \<open>Delete(k)\<close>, given a recursion depth
  above the height of the tree, returns none on its first attempt, and the heap it leaves
  is the heap it found: every node, link, key, value, colour, flag and count as before.
\<close>

theorem Delete_absent_unchanged:
  assumes tree: "heap_tree s None t (root s)"
    and dist: "distinct (addrs t)"
    and quiet: "\<forall>a\<in>set (addrs t).
      \<not> flag (node s a) \<and> sint (hpflag (node s a)) \<le> 0 \<and> key (node s a) \<noteq> k"
    and cnt: "root s = None \<longrightarrow> count s \<noteq> 1"
    and fuel: "height t < f"
  shows "Delete f k s = Inr (None, fresh_slices s)"
proof -
  let ?s0 = "fresh_slices s"
  have first: "(if count s = 1 then then_do (field key s (root s)) (\<lambda>rk. Inr (rk = k))
                else Inr False) = Inr False"
  proof (cases t)
    case Tip
    with tree cnt show ?thesis by simp
  next
    case (Fork l a r)
    with tree quiet show ?thesis by (simp add: field_def then_do_def)
  qed
  have t0: "heap_tree ?s0 None t (root ?s0)"
    using tree by (simp add: fresh_slices_def heap_tree_slices)
  have q0: "\<forall>a\<in>set (addrs t).
      \<not> flag (node ?s0 a) \<and> sint (hpflag (node ?s0 a)) \<le> 0 \<and> key (node ?s0 a) \<noteq> k"
    using quiet by (simp add: fresh_slices_def node_def)
  from delete_absent [OF t0 dist q0 fuel] obtain A where
    A: "A \<subseteq> set (addrs t)" "delete f (root ?s0) k ?s0 = Inr ((None, True), cleared A ?s0)"
    by auto
  from A(1) q0 have "cleared A ?s0 = ?s0"
    by (intro cleared_clear) auto
  with A(2) first show ?thesis
    by (simp add: Delete_def then_do_def fresh_slices_def)
qed

theorem Delete_absent_unchanged_witness:
  "heap_tree two_nodes None two_shape (root two_nodes)
   \<and> distinct (addrs two_shape)
   \<and> Delete 3 5 two_nodes = Inr (None, two_nodes)"
proof -
  have a: "heap_tree two_nodes None two_shape (root two_nodes)"
    by (simp add: two_nodes_def two_shape_def node_def)
  have b: "distinct (addrs two_shape)"
    by (simp add: two_shape_def)
  have c: "\<forall>a\<in>set (addrs two_shape).
      \<not> flag (node two_nodes a) \<and> sint (hpflag (node two_nodes a)) \<le> 0
      \<and> key (node two_nodes a) \<noteq> 5"
    by (simp add: two_nodes_def two_shape_def node_def)
  have d: "root two_nodes = None \<longrightarrow> count two_nodes \<noteq> 1"
    by (simp add: two_nodes_def)
  have e: "height two_shape < 3"
    by (simp add: two_shape_def)
  have "fresh_slices two_nodes = two_nodes"
    by (simp add: fresh_slices_def two_nodes_def)
  with a b Delete_absent_unchanged [OF a b c d e] show ?thesis by simp
qed



end
